theory Spec2Isabelle
  imports Complex_Main
begin

section \<open>Vendor lifecycle-cost comparison (vendor\_compare.py, vendors.py)\<close>

text \<open>
  The cost model of \<^verbatim>\<open>vendor_compare.py\<close> and the request handler of
  \<^verbatim>\<open>vendors.py\<close>, embedded as HOL functions.

  Conventions of the embedding:
  \<^item> a Python float is a \<^typ>\<open>real\<close>: arithmetic is exact, so the theorems below are
    about the formulas of the code, not about binary rounding error;
  \<^item> a Python dict read from YAML is an association list, looked up with
    \<^const>\<open>map_of\<close>; a scalar of the cost book is an integer or a float;
  \<^item> every exception the code can raise is a value \<open>Inl e\<close> of a sum type;
  \<^item> a string is a list of characters, each standing for a code point below 256.
\<close>

subsection \<open>Python values and errors\<close>

datatype error =
    KeyError string
  | TypeError
  | ZeroDivisionError
  | ValidationError string

datatype yval = YInt int | YFloat real

fun num :: "yval \<Rightarrow> real" where
  "num (YInt i) = of_int i"
| "num (YFloat x) = x"

text \<open>\<^verbatim>\<open>int(v)\<close>: an int is itself, a float is truncated towards zero.\<close>

fun py_int :: "yval \<Rightarrow> int" where
  "py_int (YInt i) = i"
| "py_int (YFloat x) = (if 0 \<le> x then \<lfloor>x\<rfloor> else \<lceil>x\<rceil>)"

type_synonym 'v dict = "(string \<times> 'v) list"

type_synonym cost_section = "yval dict"

type_synonym costs = "cost_section dict"

text \<open>\<^verbatim>\<open>d[k]\<close> raises KeyError on a missing key.\<close>

definition getitem :: "'v dict \<Rightarrow> string \<Rightarrow> error + 'v" where
  "getitem d k = (case map_of d k of None \<Rightarrow> Inl (KeyError k) | Some v \<Rightarrow> Inr v)"

text \<open>\<^verbatim>\<open>d.get(k, default)\<close>.\<close>

definition get_default :: "'v dict \<Rightarrow> string \<Rightarrow> 'v \<Rightarrow> 'v" where
  "get_default d k dflt = (case map_of d k of None \<Rightarrow> dflt | Some v \<Rightarrow> v)"

text \<open>Sequencing of computations that may raise: the first error wins.\<close>

definition bind_err :: "error + 'a \<Rightarrow> ('a \<Rightarrow> error + 'b) \<Rightarrow> error + 'b" where
  "bind_err m k = (case m of Inl e \<Rightarrow> Inl e | Inr x \<Rightarrow> k x)"

text \<open>
  \<^verbatim>\<open>a or b\<close> on an optional number: \<open>None\<close> and zero are falsy, so both yield \<open>b\<close>.
\<close>

definition py_or :: "yval option \<Rightarrow> yval \<Rightarrow> yval" where
  "py_or a b = (case a of None \<Rightarrow> b | Some v \<Rightarrow> if num v \<noteq> 0 then v else b)"

text \<open>
  \<^verbatim>\<open>round(x, 2)\<close>: to the nearest multiple of 0.01, an exact tie going to the even
  neighbour.
\<close>

definition round_half_even :: "real \<Rightarrow> int" where
  "round_half_even x =
     (let f = \<lfloor>x\<rfloor>; d = x - of_int f
      in if d < 1 / 2 then f
         else if 1 / 2 < d then f + 1
         else if even f then f else f + 1)"

definition round2 :: "real \<Rightarrow> real" where
  "round2 x = of_int (round_half_even (x * 100)) / 100"

subsection \<open>vendor\_compare.py\<close>

text \<open>
  \<^verbatim>\<open>npv(series, r)\<close>: \<open>sum(c / ((1 + r) ** t) for t, c in enumerate(series, start=1))\<close>.
  With \<open>1 + r = 0\<close> the first term divides by zero.
\<close>

definition npv :: "real list \<Rightarrow> real \<Rightarrow> error + real" where
  "npv series r =
     (if series \<noteq> [] \<and> 1 + r = 0 then Inl ZeroDivisionError
      else Inr (sum_list (map (\<lambda>(t, c). c / ((1 + r) ^ t)) (enumerate 1 series))))"

record Cluster =
  num_lots :: int
  est_main_lf :: real
  est_laterals_lf :: real
  analysis_years :: "int option"
  discount_rate :: "real option"
  energy_rate_per_kwh :: "real option"

text \<open>\<^verbatim>\<open>_f(fin, k, d)\<close>: \<open>fin.get(k, d) if fin else d\<close>; an empty dict is falsy.\<close>

definition f_fin :: "cost_section \<Rightarrow> string \<Rightarrow> yval \<Rightarrow> yval" where
  "f_fin fin k d = (if fin \<noteq> [] then get_default fin k d else d)"

text \<open>\<^verbatim>\<open>fin = costs.get("finance", {})\<close>.\<close>

definition finance_of :: "costs \<Rightarrow> cost_section" where
  "finance_of cb = get_default cb ''finance'' []"

text \<open>
  The three resolutions at the head of both estimate functions (lines 42--44 and
  68--70 of the source, word for word the same).
\<close>

definition resolve_ny :: "Cluster \<Rightarrow> costs \<Rightarrow> yval" where
  "resolve_ny c cb =
     py_or (map_option YInt (analysis_years c)) (f_fin (finance_of cb) ''analysis_years'' (YInt 30))"

definition resolve_dr :: "Cluster \<Rightarrow> costs \<Rightarrow> yval" where
  "resolve_dr c cb =
     py_or (map_option YFloat (discount_rate c))
       (f_fin (finance_of cb) ''discount_rate'' (YFloat (6 / 100)))"

definition resolve_ek :: "Cluster \<Rightarrow> costs \<Rightarrow> yval" where
  "resolve_ek c cb =
     py_or (map_option YFloat (energy_rate_per_kwh c))
       (f_fin (finance_of cb) ''energy_rate_per_kwh'' (YFloat (14 / 100)))"

record CostEstimate =
  system :: string
  capex :: real
  annual_om_year1 :: real
  npv_om :: real
  npv_total :: real

text \<open>
  \<^verbatim>\<open>[y1] * ny\<close> and \<^verbatim>\<open>range(1, ny + 1)\<close> need an int: a float horizon raises TypeError;
  a horizon below 1 gives the empty list.
\<close>

definition repeat_list :: "real \<Rightarrow> yval \<Rightarrow> error + real list" where
  "repeat_list y ny =
     (case ny of YInt n \<Rightarrow> Inr (replicate (nat n) y) | YFloat _ \<Rightarrow> Inl TypeError)"

definition range1 :: "yval \<Rightarrow> error + int list" where
  "range1 ny = (case ny of YInt n \<Rightarrow> Inr [1..n] | YFloat _ \<Rightarrow> Inl TypeError)"

text \<open>
  The capital cost of the vacuum system (lines 45--50): \<open>/\<close> on two ints is true
  division, \<^verbatim>\<open>math.ceil\<close> rounds its quotient up to an int.
\<close>

definition vacuum_capex :: "Cluster \<Rightarrow> cost_section \<Rightarrow> error + real" where
  "vacuum_capex c v =
     bind_err (getitem v ''main_per_lf_shallow'') (\<lambda>main_per_lf.
     bind_err (getitem v ''lateral_per_lf'') (\<lambda>lateral_per_lf.
     bind_err (getitem v ''station_per_400_lots_ls'') (\<lambda>station.
     bind_err (getitem v ''valve_pit_each'') (\<lambda>valve_pit.
       Inr (est_main_lf c * num main_per_lf
            + est_laterals_lf c * num lateral_per_lf
            + of_int \<lceil>of_int (max 1 (num_lots c)) / (400::real)\<rceil> * num station
            + of_int \<lceil>of_int (num_lots c) / (2::real)\<rceil> * num valve_pit)))))"

text \<open>
  The yearly operating cost (lines 51--54 for the vacuum section, the same expression
  at lines 77--80 for the pressure section).
\<close>

definition annual_om :: "Cluster \<Rightarrow> cost_section \<Rightarrow> real \<Rightarrow> error + real" where
  "annual_om c sec ek =
     bind_err (getitem sec ''annual_om_per_conn'') (\<lambda>om.
     bind_err (getitem sec ''energy_kwh_per_conn_day'') (\<lambda>kwh.
       Inr (of_int (num_lots c) * num om
            + of_int (num_lots c) * num kwh * 365 * ek)))"

definition estimate_vacuum :: "Cluster \<Rightarrow> costs \<Rightarrow> error + CostEstimate" where
  "estimate_vacuum c cb =
     bind_err (getitem cb ''vacuum'') (\<lambda>v.
       let ny = resolve_ny c cb;
           dr = resolve_dr c cb;
           ek = resolve_ek c cb
       in
       bind_err (vacuum_capex c v) (\<lambda>capex.
       bind_err (annual_om c v (num ek)) (\<lambda>y1.
       bind_err (repeat_list y1 ny) (\<lambda>series.
       bind_err (npv series (num dr)) (\<lambda>npv_om.
         Inr \<lparr> system = ''Vacuum'',
               capex = round2 capex,
               annual_om_year1 = round2 y1,
               npv_om = round2 npv_om,
               npv_total = round2 (capex + npv_om) \<rparr>)))))"

text \<open>The capital cost of the pressure system (lines 71--76).\<close>

definition pressure_capex :: "Cluster \<Rightarrow> cost_section \<Rightarrow> error + real" where
  "pressure_capex c p =
     bind_err (getitem p ''main_per_lf_shallow'') (\<lambda>main_per_lf.
     bind_err (getitem p ''lateral_per_lf'') (\<lambda>lateral_per_lf.
     bind_err (getitem p ''grinder_pump_package_each'') (\<lambda>grinder.
     bind_err (if 8000 < est_main_lf c then getitem p ''booster_ls'' else Inr (YInt 0)) (\<lambda>booster.
       Inr (est_main_lf c * num main_per_lf
            + est_laterals_lf c * num lateral_per_lf
            + of_int (num_lots c) * num grinder
            + num booster)))))"

text \<open>
  The list comprehension of lines 83--85:
  \<^verbatim>\<open>[(annual + (rep_cost if (y % rep_years == 0) else 0)) for y in range(1, ny + 1)]\<close>.
\<close>

definition pressure_series :: "real \<Rightarrow> real \<Rightarrow> int \<Rightarrow> int list \<Rightarrow> real list" where
  "pressure_series annual rep_cost rep_years ys =
     map (\<lambda>y. annual + (if y mod rep_years = 0 then rep_cost else 0)) ys"

definition estimate_pressure :: "Cluster \<Rightarrow> costs \<Rightarrow> error + CostEstimate" where
  "estimate_pressure c cb =
     bind_err (getitem cb ''pressure'') (\<lambda>p.
       let ny = resolve_ny c cb;
           dr = resolve_dr c cb;
           ek = resolve_ek c cb
       in
       bind_err (pressure_capex c p) (\<lambda>capex.
       bind_err (annual_om c p (num ek)) (\<lambda>annual.
       bind_err (getitem p ''pump_replace_years'') (\<lambda>pry.
       let rep_years = max 1 (py_int pry) in
       bind_err (getitem p ''pump_replace_cost_each'') (\<lambda>prc.
       let rep_cost = of_int (num_lots c) * num prc in
       bind_err (range1 ny) (\<lambda>ys.
       let series = pressure_series annual rep_cost rep_years ys in
       bind_err (npv series (num dr)) (\<lambda>npv_om.
         Inr \<lparr> system = ''Pressure'',
               capex = round2 capex,
               annual_om_year1 = round2 annual,
               npv_om = round2 npv_om,
               npv_total = round2 (capex + npv_om) \<rparr>)))))))"

record ComparisonResult =
  vacuum :: CostEstimate
  pressure :: CostEstimate
  preferred :: string
  npv_delta :: real

text \<open>
  \<^verbatim>\<open>compare(cluster)\<close>. The cost book, which the source reads from
  \<^verbatim>\<open>services/cost_book.yaml\<close> with \<^verbatim>\<open>load_costs()\<close>, is a parameter here.
\<close>

definition compare :: "costs \<Rightarrow> Cluster \<Rightarrow> error + ComparisonResult" where
  "compare cb c =
     bind_err (estimate_vacuum c cb) (\<lambda>vac.
     bind_err (estimate_pressure c cb) (\<lambda>pre.
       Inr \<lparr> vacuum = vac,
             pressure = pre,
             preferred = (if npv_total vac < npv_total pre then ''Vacuum'' else ''Pressure''),
             npv_delta = round2 \<bar>npv_total vac - npv_total pre\<bar> \<rparr>))"

subsection \<open>vendors.py\<close>

text \<open>
  A field of a JSON request body is left out, sent as \<open>null\<close>, or sent with a value.
  The request model declares \<^verbatim>\<open>analysis_years: Optional[int] = 30\<close>,
  \<^verbatim>\<open>discount_rate: Optional[float] = 0.06\<close>, \<^verbatim>\<open>energy_rate_per_kwh: Optional[float] = 0.14\<close>,
  \<^verbatim>\<open>fmt: Optional[str] = "json"\<close> and \<^verbatim>\<open>filename: Optional[str] = None\<close>: the default
  stands in for a field left out only, and \<open>null\<close> is accepted as \<open>None\<close>.
\<close>

datatype 'a field = Omitted | Null | Given 'a

definition field_value :: "'a option \<Rightarrow> 'a field \<Rightarrow> 'a option" where
  "field_value dflt f = (case f of Omitted \<Rightarrow> dflt | Null \<Rightarrow> None | Given v \<Rightarrow> Some v)"

record ClusterBody =
  body_num_lots :: int
  body_est_main_lf :: real
  body_est_laterals_lf :: real
  body_analysis_years :: "int field"
  body_discount_rate :: "real field"
  body_energy_rate_per_kwh :: "real field"

record CompareReqBody =
  body_cluster :: ClusterBody
  body_fmt :: "string field"
  body_filename :: "string field"

record CompareReq =
  cluster :: Cluster
  fmt :: "string option"
  filename :: "string option"

text \<open>
  Validation of the request model \<^verbatim>\<open>Cluster\<close>: \<open>num_lots\<close> has \<open>gt=0\<close>, the two lengths
  have \<open>ge=0\<close>; the three optional fields carry no constraint.
\<close>

definition validate_cluster :: "ClusterBody \<Rightarrow> error + Cluster" where
  "validate_cluster b =
     (if \<not> 0 < body_num_lots b then Inl (ValidationError ''num_lots'')
      else if \<not> 0 \<le> body_est_main_lf b then Inl (ValidationError ''est_main_lf'')
      else if \<not> 0 \<le> body_est_laterals_lf b then Inl (ValidationError ''est_laterals_lf'')
      else Inr \<lparr> num_lots = body_num_lots b,
                 est_main_lf = body_est_main_lf b,
                 est_laterals_lf = body_est_laterals_lf b,
                 analysis_years = field_value (Some 30) (body_analysis_years b),
                 discount_rate = field_value (Some (6 / 100)) (body_discount_rate b),
                 energy_rate_per_kwh = field_value (Some (14 / 100)) (body_energy_rate_per_kwh b) \<rparr>)"

definition validate_req :: "CompareReqBody \<Rightarrow> error + CompareReq" where
  "validate_req b =
     bind_err (validate_cluster (body_cluster b)) (\<lambda>c.
       Inr \<lparr> cluster = c,
             fmt = field_value (Some ''json'') (body_fmt b),
             filename = field_value None (body_filename b) \<rparr>)"

text \<open>
  \<^verbatim>\<open>str.lower()\<close> on code points below 256: the letters A--Z and the accented capitals
  of Latin-1 (192--222 without the multiplication sign 215) move up by 32.
\<close>

definition lower_char :: "char \<Rightarrow> char" where
  "lower_char ch =
     (let n = (of_char ch :: nat)
      in if (65 \<le> n \<and> n \<le> 90) \<or> (192 \<le> n \<and> n \<le> 222 \<and> n \<noteq> 215)
         then char_of (n + 32) else ch)"

definition lower :: "string \<Rightarrow> string" where
  "lower s = map lower_char s"

text \<open>\<^verbatim>\<open>s or d\<close> on an optional string: \<open>None\<close> and the empty string are falsy.\<close>

definition str_or :: "string option \<Rightarrow> string \<Rightarrow> string" where
  "str_or a d = (case a of None \<Rightarrow> d | Some s \<Rightarrow> if s \<noteq> [] then s else d)"

text \<open>What \<^verbatim>\<open>{...}\<close> of an f-string shows for an optional string.\<close>

definition fstr :: "string option \<Rightarrow> string" where
  "fstr a = (case a of None \<Rightarrow> ''None'' | Some s \<Rightarrow> s)"

text \<open>
  What the handler returns: the comparison as a dict, a \<^verbatim>\<open>Response\<close> with content, media
  type and headers, or the dict \<^verbatim>\<open>{"error": message}\<close>.
\<close>

datatype reply =
    Result ComparisonResult
  | Response string string "(string \<times> string) list"
  | ErrorDict string

text \<open>
  The framework answers every value the handler returns with status 200: the route
  sets no other status and \<^verbatim>\<open>Response\<close> is built without \<open>status_code\<close>.
\<close>

fun status_code :: "reply \<Rightarrow> nat" where
  "status_code (Result _) = 200"
| "status_code (Response _ _ _) = 200"
| "status_code (ErrorDict _) = 200"

text \<open>
  The three renderers \<^verbatim>\<open>_to_markdown\<close>, \<^verbatim>\<open>_to_html\<close> and \<^verbatim>\<open>_to_csv_bytes\<close> format the
  numbers of a result as text; the handler only passes their output on, so they are
  parameters of its model.
\<close>

record Renderers =
  to_markdown :: "ComparisonResult \<Rightarrow> string"
  to_html :: "ComparisonResult \<Rightarrow> string"
  to_csv_bytes :: "ComparisonResult \<Rightarrow> string"

definition content_disposition :: "string option \<Rightarrow> string \<Rightarrow> (string \<times> string) list" where
  "content_disposition fname dflt =
     [(''Content-Disposition'',
       ''attachment; filename='' @ [CHR 0x22] @ str_or fname dflt @ [CHR 0x22])]"

definition vendors_compare :: "Renderers \<Rightarrow> costs \<Rightarrow> CompareReq \<Rightarrow> error + reply" where
  "vendors_compare R cb req =
     bind_err (compare cb (cluster req)) (\<lambda>res.
       let f = lower (str_or (fmt req) ''json'') in
       if f = ''json'' then Inr (Result res)
       else if f = ''markdown'' then Inr (Response (to_markdown R res) ''text/markdown'' [])
       else if f = ''html'' then
         Inr (Response (to_html R res) ''text/html''
                (content_disposition (filename req) ''vendor_compare.html''))
       else if f = ''csv'' then
         Inr (Response (to_csv_bytes R res) ''text/csv''
                (content_disposition (filename req) ''vendor_compare.csv''))
       else Inr (ErrorDict (''Unknown format '' @ [CHR 0x27] @ fstr (fmt req) @ [CHR 0x27]
                             @ ''. Use json|markdown|html|csv'')))"

text \<open>\<^verbatim>\<open>POST /vendors/compare\<close>: the body is validated, then handed to the handler.\<close>

definition post_vendors_compare :: "Renderers \<Rightarrow> costs \<Rightarrow> CompareReqBody \<Rightarrow> error + reply" where
  "post_vendors_compare R cb b = bind_err (validate_req b) (vendors_compare R cb)"

subsection \<open>Example inputs\<close>

text \<open>
  A cost book with every key the formulas read, and the cluster of 100 lots, 5000 ft of
  main and 2000 ft of laterals that leaves the three optional fields out.
\<close>

definition cost_book_ex :: costs where
  "cost_book_ex =
     [(''vacuum'',
        [(''main_per_lf_shallow'', YInt 50), (''lateral_per_lf'', YInt 30),
         (''station_per_400_lots_ls'', YInt 150000), (''valve_pit_each'', YInt 2000),
         (''annual_om_per_conn'', YInt 120), (''energy_kwh_per_conn_day'', YFloat (1 / 2))]),
      (''pressure'',
        [(''main_per_lf_shallow'', YInt 40), (''lateral_per_lf'', YInt 25),
         (''grinder_pump_package_each'', YInt 5000), (''booster_ls'', YInt 80000),
         (''annual_om_per_conn'', YInt 150), (''energy_kwh_per_conn_day'', YFloat (1 / 2)),
         (''pump_replace_years'', YInt 5), (''pump_replace_cost_each'', YInt 2500)]),
      (''finance'',
        [(''analysis_years'', YInt 2), (''discount_rate'', YFloat (1 / 4)),
         (''energy_rate_per_kwh'', YFloat (14 / 100))])]"

definition cluster_ex :: Cluster where
  "cluster_ex = \<lparr> num_lots = 100, est_main_lf = 5000, est_laterals_lf = 2000,
                   analysis_years = None, discount_rate = None, energy_rate_per_kwh = None \<rparr>"

definition vacuum_ex :: CostEstimate where
  "vacuum_ex = \<lparr> system = ''Vacuum'', capex = 560000, annual_om_year1 = 14555,
                  npv_om = 104796 / 5, npv_total = 2904796 / 5 \<rparr>"

definition pressure_ex :: CostEstimate where
  "pressure_ex = \<lparr> system = ''Pressure'', capex = 750000, annual_om_year1 = 17555,
                    npv_om = 126396 / 5, npv_total = 3876396 / 5 \<rparr>"

text \<open>The same cluster with a single lot, and the comparison of the example cluster.\<close>

definition cluster_single :: Cluster where
  "cluster_single = cluster_ex \<lparr> num_lots := 1 \<rparr>"

definition vacuum_single :: CostEstimate where
  "vacuum_single = \<lparr> system = ''Vacuum'', capex = 462000, annual_om_year1 = 2911 / 20,
                      npv_om = 20959 / 100, npv_total = 46220959 / 100 \<rparr>"

definition comparison_ex :: ComparisonResult where
  "comparison_ex = \<lparr> vacuum = vacuum_ex, pressure = pressure_ex,
                      preferred = ''Vacuum'', npv_delta = 194320 \<rparr>"

subsection \<open>The fallback chain as the specification words it\<close>

text \<open>
  Following the specification, not the code: the value of \<open>cost_book.finance\<close> under a
  key, if the section and the key are there; and the three-level choice "the value on
  the cluster if present, otherwise the value in \<open>cost_book.finance\<close> if present,
  otherwise the hardcoded default".
\<close>

definition finance_value :: "costs \<Rightarrow> string \<Rightarrow> yval option" where
  "finance_value cb k = (case map_of cb ''finance'' of None \<Rightarrow> None | Some fin \<Rightarrow> map_of fin k)"

definition spec_resolve :: "yval option \<Rightarrow> yval option \<Rightarrow> yval \<Rightarrow> yval" where
  "spec_resolve cv fv d =
     (case cv of Some v \<Rightarrow> v | None \<Rightarrow> (case fv of Some w \<Rightarrow> w | None \<Rightarrow> d))"

text \<open>The example cluster with a discount rate of zero given on the cluster.\<close>

definition cluster_zero_rate :: Cluster where
  "cluster_zero_rate = cluster_ex \<lparr> discount_rate := Some 0 \<rparr>"

text \<open>The example cluster over a horizon of 10 years; the example pump lasts 5 years.\<close>

definition cluster_ten :: Cluster where
  "cluster_ten = cluster_ex \<lparr> analysis_years := Some 10 \<rparr>"

definition pressure_ten :: CostEstimate where
  "pressure_ten = \<lparr> system = ''Pressure'', capex = 750000, annual_om_year1 = 17555,
                     npv_om = 17144373 / 100, npv_total = 92144373 / 100 \<rparr>"

text \<open>
  The hypothesis of the monotonicity claim: no unit cost of the vacuum or of the
  pressure section is negative.
\<close>

definition nonneg_section :: "cost_section \<Rightarrow> bool" where
  "nonneg_section sec = list_all (\<lambda>(k, v). 0 \<le> num v) sec"

definition nonneg_unit_costs :: "costs \<Rightarrow> bool" where
  "nonneg_unit_costs cb =
     ((case map_of cb ''vacuum'' of None \<Rightarrow> True | Some v \<Rightarrow> nonneg_section v)
      \<and> (case map_of cb ''pressure'' of None \<Rightarrow> True | Some p \<Rightarrow> nonneg_section p))"

text \<open>The estimates of the example cluster grown to 500 lots.\<close>

definition vacuum_500 :: CostEstimate where
  "vacuum_500 = \<lparr> system = ''Vacuum'', capex = 1110000, annual_om_year1 = 72775,
                   npv_om = 104796, npv_total = 1214796 \<rparr>"

definition pressure_500 :: CostEstimate where
  "pressure_500 = \<lparr> system = ''Pressure'', capex = 2750000, annual_om_year1 = 87775,
                     npv_om = 126396, npv_total = 2876396 \<rparr>"

text \<open>
  The example cost book with a pump that is replaced every year, and the example
  cluster over a single year at a discount rate of 0.06.
\<close>

definition cost_book_yearly :: costs where
  "cost_book_yearly =
     [(''vacuum'',
        [(''main_per_lf_shallow'', YInt 50), (''lateral_per_lf'', YInt 30),
         (''station_per_400_lots_ls'', YInt 150000), (''valve_pit_each'', YInt 2000),
         (''annual_om_per_conn'', YInt 120), (''energy_kwh_per_conn_day'', YFloat (1 / 2))]),
      (''pressure'',
        [(''main_per_lf_shallow'', YInt 40), (''lateral_per_lf'', YInt 25),
         (''grinder_pump_package_each'', YInt 5000), (''booster_ls'', YInt 80000),
         (''annual_om_per_conn'', YInt 150), (''energy_kwh_per_conn_day'', YFloat (1 / 2)),
         (''pump_replace_years'', YInt 1), (''pump_replace_cost_each'', YInt 2500)]),
      (''finance'',
        [(''analysis_years'', YInt 2), (''discount_rate'', YFloat (1 / 4)),
         (''energy_rate_per_kwh'', YFloat (14 / 100))])]"

definition cluster_one_year :: Cluster where
  "cluster_one_year = cluster_ex \<lparr> analysis_years := Some 1, discount_rate := Some (6 / 100) \<rparr>"

definition vacuum_one_year :: CostEstimate where
  "vacuum_one_year = \<lparr> system = ''Vacuum'', capex = 560000, annual_om_year1 = 14555,
                        npv_om = 1373113 / 100, npv_total = 57373113 / 100 \<rparr>"

definition pressure_one_year :: CostEstimate where
  "pressure_one_year = \<lparr> system = ''Pressure'', capex = 750000, annual_om_year1 = 17555,
                          npv_om = 12620519 / 50, npv_total = 50120519 / 50 \<rparr>"

subsection \<open>Reading the handler's answer\<close>

text \<open>
  Which rendering a reply is: the dict of the comparison is the JSON rendering, a
  \<^verbatim>\<open>Response\<close> is told by its media type, the error dict is no rendering.
\<close>

fun rendering_of :: "reply \<Rightarrow> string" where
  "rendering_of (Result _) = ''json''"
| "rendering_of (Response _ media_type _) = media_type"
| "rendering_of (ErrorDict _) = ''error''"

text \<open>
  Following the claim's words, not the code: the lowercased \<open>fmt\<close> string, with \<open>None\<close>
  mapped to \<open>json\<close> first.
\<close>

definition fmt_key :: "string option \<Rightarrow> string" where
  "fmt_key f = lower (case f of None \<Rightarrow> ''json'' | Some s \<Rightarrow> s)"

text \<open>Stand-ins for the three renderers, and requests for the example cluster.\<close>

definition renderers_ex :: Renderers where
  "renderers_ex = \<lparr> to_markdown = (\<lambda>_. ''md''), to_html = (\<lambda>_. ''html''),
                     to_csv_bytes = (\<lambda>_. ''csv'') \<rparr>"

definition req_no_fmt :: CompareReq where
  "req_no_fmt = \<lparr> cluster = cluster_ex, fmt = None, filename = None \<rparr>"

definition req_upper_json :: CompareReq where
  "req_upper_json = \<lparr> cluster = cluster_ex, fmt = Some ''JSON'', filename = None \<rparr>"

definition req_empty_fmt :: CompareReq where
  "req_empty_fmt = \<lparr> cluster = cluster_ex, fmt = Some [], filename = None \<rparr>"

definition req_xml :: CompareReq where
  "req_xml = \<lparr> cluster = cluster_ex, fmt = Some ''XML'', filename = None \<rparr>"

definition req_minus_one :: CompareReq where
  "req_minus_one = \<lparr> cluster = cluster_ex \<lparr> discount_rate := Some (- 1) \<rparr>,
                      fmt = Some ''xml'', filename = None \<rparr>"

text \<open>
  The example cost book without its \<open>finance\<close> section; a request body that gives a
  horizon, sends \<open>null\<close> for the discount rate and leaves the energy rate out; and a
  body that leaves all three out. Each comes with the request the validation makes of it.
\<close>

definition cost_book_no_finance :: costs where
  "cost_book_no_finance = take 2 cost_book_ex"

definition body_null_rate :: CompareReqBody where
  "body_null_rate =
     \<lparr> body_cluster = \<lparr> body_num_lots = 100, body_est_main_lf = 5000, body_est_laterals_lf = 2000,
                         body_analysis_years = Given 2, body_discount_rate = Null,
                         body_energy_rate_per_kwh = Omitted \<rparr>,
       body_fmt = Omitted, body_filename = Omitted \<rparr>"

definition req_null_rate :: CompareReq where
  "req_null_rate =
     \<lparr> cluster = \<lparr> num_lots = 100, est_main_lf = 5000, est_laterals_lf = 2000,
                    analysis_years = Some 2, discount_rate = None,
                    energy_rate_per_kwh = Some (14 / 100) \<rparr>,
       fmt = Some ''json'', filename = None \<rparr>"

definition body_omit_all :: CompareReqBody where
  "body_omit_all =
     \<lparr> body_cluster = \<lparr> body_num_lots = 100, body_est_main_lf = 5000, body_est_laterals_lf = 2000,
                         body_analysis_years = Omitted, body_discount_rate = Omitted,
                         body_energy_rate_per_kwh = Omitted \<rparr>,
       body_fmt = Omitted, body_filename = Omitted \<rparr>"

definition req_defaults :: CompareReq where
  "req_defaults =
     \<lparr> cluster = \<lparr> num_lots = 100, est_main_lf = 5000, est_laterals_lf = 2000,
                    analysis_years = Some 30, discount_rate = Some (6 / 100),
                    energy_rate_per_kwh = Some (14 / 100) \<rparr>,
       fmt = Some ''json'', filename = None \<rparr>"

text \<open>
  A cost book under which both systems cost the example cluster the same, and the
  comparison it yields.
\<close>

definition cost_book_tie :: costs where
  "cost_book_tie =
     [(''vacuum'',
        [(''main_per_lf_shallow'', YInt 50), (''lateral_per_lf'', YInt 30),
         (''station_per_400_lots_ls'', YInt 150000), (''valve_pit_each'', YInt 2000),
         (''annual_om_per_conn'', YInt 120), (''energy_kwh_per_conn_day'', YFloat (1 / 2))]),
      (''pressure'',
        [(''main_per_lf_shallow'', YInt 50), (''lateral_per_lf'', YInt 30),
         (''grinder_pump_package_each'', YInt 2500), (''booster_ls'', YInt 80000),
         (''annual_om_per_conn'', YInt 120), (''energy_kwh_per_conn_day'', YFloat (1 / 2)),
         (''pump_replace_years'', YInt 5), (''pump_replace_cost_each'', YInt 2500)]),
      (''finance'',
        [(''analysis_years'', YInt 2), (''discount_rate'', YFloat (1 / 4)),
         (''energy_rate_per_kwh'', YFloat (14 / 100))])]"

definition comparison_tie :: ComparisonResult where
  "comparison_tie = \<lparr> vacuum = vacuum_ex, pressure = vacuum_ex \<lparr> system := ''Pressure'' \<rparr>,
                       preferred = ''Pressure'', npv_delta = 0 \<rparr>"

section \<open>Properties\<close>

subsection \<open>Auxiliary facts\<close>

lemma bind_err_Inr: "(bind_err m k = Inr y) = (\<exists>x. m = Inr x \<and> k x = Inr y)"
  by (cases m) (simp_all add: bind_err_def)

lemma bind_err_Inl [simp]: "bind_err (Inl e) k = Inl e"
  by (simp add: bind_err_def)

lemma bind_err_Inr_eq [simp]: "bind_err (Inr x) k = k x"
  by (simp add: bind_err_def)

lemma round_half_even_ge_floor: "\<lfloor>x\<rfloor> \<le> round_half_even x"
  by (simp add: round_half_even_def Let_def)

lemma round_half_even_le_floor1: "round_half_even x \<le> \<lfloor>x\<rfloor> + 1"
  by (simp add: round_half_even_def Let_def)

lemma round_half_even_lower: "x - 1 / 2 \<le> of_int (round_half_even x)"
  unfolding round_half_even_def Let_def by (simp; linarith)

lemma round_half_even_upper: "of_int (round_half_even x) \<le> x + 1 / 2"
  unfolding round_half_even_def Let_def by (simp; linarith)

lemma round_half_even_of_int [simp]: "round_half_even (of_int n) = n"
  by (simp add: round_half_even_def)

lemma round_half_even_mono:
  assumes "x \<le> y"
  shows "round_half_even x \<le> round_half_even y"
proof (cases "\<lfloor>x\<rfloor> = \<lfloor>y\<rfloor>")
  case True
  with assms show ?thesis
    by (auto simp: round_half_even_def Let_def)
next
  case False
  with assms have "\<lfloor>x\<rfloor> < \<lfloor>y\<rfloor>"
    using floor_mono [of x y] by linarith
  then have "round_half_even x \<le> \<lfloor>y\<rfloor>"
    using round_half_even_le_floor1 [of x] by linarith
  then show ?thesis
    using round_half_even_ge_floor [of y] by linarith
qed

lemma round2_mono: "x \<le> y \<Longrightarrow> round2 x \<le> round2 y"
  by (simp add: round2_def round_half_even_mono divide_right_mono)

text \<open>Rounding a sum and summing the rounded parts differ by one cent at most.\<close>

lemma round2_add_close: "\<bar>round2 (a + b) - (round2 a + round2 b)\<bar> \<le> 1 / 100"
proof -
  define i where "i = round_half_even ((a + b) * 100)"
  define j where "j = round_half_even (a * 100)"
  define k where "k = round_half_even (b * 100)"
  have "\<bar>(of_int i :: real) - (of_int j + of_int k)\<bar> \<le> 3 / 2"
    using round_half_even_lower [of "(a + b) * 100"] round_half_even_upper [of "(a + b) * 100"]
      round_half_even_lower [of "a * 100"] round_half_even_upper [of "a * 100"]
      round_half_even_lower [of "b * 100"] round_half_even_upper [of "b * 100"]
    unfolding i_def j_def k_def distrib_right by linarith
  then have "\<bar>(of_int (i - (j + k)) :: real)\<bar> \<le> 3 / 2"
    by simp
  then have "\<bar>i - (j + k)\<bar> \<le> 1"
    by linarith
  then have "\<bar>(of_int (i - (j + k)) :: real)\<bar> \<le> 1"
    by linarith
  then have le: "\<bar>(of_int i :: real) - (of_int j + of_int k)\<bar> \<le> 1"
    by simp
  have "round2 (a + b) - (round2 a + round2 b) = (of_int i - (of_int j + of_int k)) / 100"
    by (simp add: round2_def i_def j_def k_def diff_divide_distrib add_divide_distrib)
  then have "\<bar>round2 (a + b) - (round2 a + round2 b)\<bar>
      = \<bar>((of_int i :: real) - (of_int j + of_int k)) / 100\<bar>"
    by (rule arg_cong)
  also have "\<dots> = \<bar>(of_int i :: real) - (of_int j + of_int k)\<bar> / 100"
    by simp
  finally show ?thesis
    using le by simp
qed

text \<open>When each function returns, and what it returns then.\<close>

lemma vacuum_capex_Inr:
  "(vacuum_capex c v = Inr x) =
     (\<exists>a b s p. getitem v ''main_per_lf_shallow'' = Inr a
        \<and> getitem v ''lateral_per_lf'' = Inr b
        \<and> getitem v ''station_per_400_lots_ls'' = Inr s
        \<and> getitem v ''valve_pit_each'' = Inr p
        \<and> x = est_main_lf c * num a + est_laterals_lf c * num b
              + of_int \<lceil>of_int (max 1 (num_lots c)) / (400::real)\<rceil> * num s
              + of_int \<lceil>of_int (num_lots c) / (2::real)\<rceil> * num p)"
  by (auto simp: vacuum_capex_def bind_err_Inr)

lemma pressure_capex_Inr:
  "(pressure_capex c p = Inr x) =
     (\<exists>a b g bo. getitem p ''main_per_lf_shallow'' = Inr a
        \<and> getitem p ''lateral_per_lf'' = Inr b
        \<and> getitem p ''grinder_pump_package_each'' = Inr g
        \<and> (if 8000 < est_main_lf c then getitem p ''booster_ls'' else Inr (YInt 0)) = Inr bo
        \<and> x = est_main_lf c * num a + est_laterals_lf c * num b
              + of_int (num_lots c) * num g + num bo)"
  by (auto simp: pressure_capex_def bind_err_Inr)

lemma annual_om_Inr:
  "(annual_om c sec ek = Inr y) =
     (\<exists>om kwh. getitem sec ''annual_om_per_conn'' = Inr om
        \<and> getitem sec ''energy_kwh_per_conn_day'' = Inr kwh
        \<and> y = of_int (num_lots c) * num om + of_int (num_lots c) * num kwh * 365 * ek)"
  by (auto simp: annual_om_def bind_err_Inr)

lemma estimate_vacuum_Inr:
  "(estimate_vacuum c cb = Inr e) =
     (\<exists>v x y1 series w. getitem cb ''vacuum'' = Inr v \<and> vacuum_capex c v = Inr x
        \<and> annual_om c v (num (resolve_ek c cb)) = Inr y1
        \<and> repeat_list y1 (resolve_ny c cb) = Inr series
        \<and> npv series (num (resolve_dr c cb)) = Inr w
        \<and> e = \<lparr> system = ''Vacuum'', capex = round2 x, annual_om_year1 = round2 y1,
                 npv_om = round2 w, npv_total = round2 (x + w) \<rparr>)"
  by (auto simp: estimate_vacuum_def bind_err_Inr Let_def)

lemma estimate_pressure_Inr:
  "(estimate_pressure c cb = Inr e) =
     (\<exists>p x annual pry prc ys w. getitem cb ''pressure'' = Inr p \<and> pressure_capex c p = Inr x
        \<and> annual_om c p (num (resolve_ek c cb)) = Inr annual
        \<and> getitem p ''pump_replace_years'' = Inr pry
        \<and> getitem p ''pump_replace_cost_each'' = Inr prc
        \<and> range1 (resolve_ny c cb) = Inr ys
        \<and> npv (pressure_series annual (of_int (num_lots c) * num prc) (max 1 (py_int pry)) ys)
              (num (resolve_dr c cb)) = Inr w
        \<and> e = \<lparr> system = ''Pressure'', capex = round2 x, annual_om_year1 = round2 annual,
                 npv_om = round2 w, npv_total = round2 (x + w) \<rparr>)"
  by (auto simp: estimate_pressure_def bind_err_Inr Let_def)

text \<open>The two estimates of the example cluster.\<close>

lemma estimate_vacuum_ex: "estimate_vacuum cluster_ex cost_book_ex = Inr vacuum_ex"
  by code_simp

lemma estimate_pressure_ex: "estimate_pressure cluster_ex cost_book_ex = Inr pressure_ex"
  by code_simp

subsection \<open>The total is the sum of its parts, up to rounding\<close>

text \<open>
  C3. Each estimate that is returned, of either system, has
  \<open>npv_total = capex + npv_om\<close> up to rounding to 2 decimals: the three fields are
  rounded separately, so the rounded total and the sum of the rounded parts differ by
  one cent at most.
\<close>

theorem npv_total_is_capex_plus_npv_om:
  assumes "estimate_vacuum c cb = Inr e \<or> estimate_pressure c cb = Inr e"
  shows "\<bar>npv_total e - (capex e + npv_om e)\<bar> \<le> 1 / 100"
  using assms
proof
  assume "estimate_vacuum c cb = Inr e"
  then obtain x w where "e = \<lparr> system = ''Vacuum'', capex = round2 x,
      annual_om_year1 = annual_om_year1 e, npv_om = round2 w, npv_total = round2 (x + w) \<rparr>"
    by (auto simp: estimate_vacuum_Inr)
  then have "npv_total e = round2 (x + w)" "capex e = round2 x" "npv_om e = round2 w"
    by (metis CostEstimate.select_convs)+
  then show ?thesis
    using round2_add_close [of x w] by simp
next
  assume "estimate_pressure c cb = Inr e"
  then obtain x w where "e = \<lparr> system = ''Pressure'', capex = round2 x,
      annual_om_year1 = annual_om_year1 e, npv_om = round2 w, npv_total = round2 (x + w) \<rparr>"
    by (auto simp: estimate_pressure_Inr)
  then have "npv_total e = round2 (x + w)" "capex e = round2 x" "npv_om e = round2 w"
    by (metis CostEstimate.select_convs)+
  then show ?thesis
    using round2_add_close [of x w] by simp
qed

theorem npv_total_is_capex_plus_npv_om_witness:
  "(estimate_vacuum cluster_ex cost_book_ex = Inr vacuum_ex
      \<or> estimate_pressure cluster_ex cost_book_ex = Inr vacuum_ex)
   \<and> \<bar>npv_total vacuum_ex - (capex vacuum_ex + npv_om vacuum_ex)\<bar> \<le> 1 / 100"
proof -
  have h: "estimate_vacuum cluster_ex cost_book_ex = Inr vacuum_ex
      \<or> estimate_pressure cluster_ex cost_book_ex = Inr vacuum_ex"
    by (simp add: estimate_vacuum_ex)
  show ?thesis
    using h npv_total_is_capex_plus_npv_om [OF h] by simp
qed

subsection \<open>The capital cost of the vacuum system\<close>

lemma station_count_pos: "1 \<le> \<lceil>of_int (max 1 n) / (400::real)\<rceil>"
proof -
  have "0 < (of_int (max 1 n) :: real) / 400"
    by simp
  then show ?thesis
    by linarith
qed

lemma estimate_vacuum_single: "estimate_vacuum cluster_single cost_book_ex = Inr vacuum_single"
  by code_simp

text \<open>
  C8. Whenever \<open>estimate_vacuum\<close> returns, the four unit costs are in the vacuum section
  and the capital cost computed from them is
  \<open>est_main_lf * main_per_lf_shallow + est_laterals_lf * lateral_per_lf
  + ceil(max(1, num_lots) / 400) * station_per_400_lots_ls + ceil(num_lots / 2) * valve_pit_each\<close>;
  the field \<open>capex\<close> of the result is this cost rounded to 2 decimals. The number of
  stations charged is at least one, whatever \<open>num_lots\<close> is.
\<close>

theorem vacuum_capex_formula:
  assumes "estimate_vacuum c cb = Inr e"
  shows "\<exists>v a b s p.
           getitem cb ''vacuum'' = Inr v
         \<and> getitem v ''main_per_lf_shallow'' = Inr a
         \<and> getitem v ''lateral_per_lf'' = Inr b
         \<and> getitem v ''station_per_400_lots_ls'' = Inr s
         \<and> getitem v ''valve_pit_each'' = Inr p
         \<and> vacuum_capex c v =
             Inr (est_main_lf c * num a + est_laterals_lf c * num b
                  + of_int \<lceil>of_int (max 1 (num_lots c)) / (400::real)\<rceil> * num s
                  + of_int \<lceil>of_int (num_lots c) / (2::real)\<rceil> * num p)
         \<and> capex e =
             round2 (est_main_lf c * num a + est_laterals_lf c * num b
                  + of_int \<lceil>of_int (max 1 (num_lots c)) / (400::real)\<rceil> * num s
                  + of_int \<lceil>of_int (num_lots c) / (2::real)\<rceil> * num p)
         \<and> 1 \<le> \<lceil>of_int (max 1 (num_lots c)) / (400::real)\<rceil>"
proof -
  from assms obtain v x where v: "getitem cb ''vacuum'' = Inr v"
    and x: "vacuum_capex c v = Inr x" and e: "capex e = round2 x"
    by (auto simp: estimate_vacuum_Inr)
  from x obtain a b s p where "getitem v ''main_per_lf_shallow'' = Inr a"
    "getitem v ''lateral_per_lf'' = Inr b" "getitem v ''station_per_400_lots_ls'' = Inr s"
    "getitem v ''valve_pit_each'' = Inr p"
    "x = est_main_lf c * num a + est_laterals_lf c * num b
                  + of_int \<lceil>of_int (max 1 (num_lots c)) / (400::real)\<rceil> * num s
                  + of_int \<lceil>of_int (num_lots c) / (2::real)\<rceil> * num p"
    by (auto simp: vacuum_capex_Inr)
  with v x e station_count_pos [of "num_lots c"] show ?thesis
    by blast
qed

text \<open>
  At the single-lot cluster the estimate is returned and charges one station:
  \<open>5000 * 50 + 2000 * 30 + 1 * 150000 + 1 * 2000 = 462000\<close>.
\<close>

theorem vacuum_capex_formula_witness:
  "estimate_vacuum cluster_single cost_book_ex = Inr vacuum_single
   \<and> (\<exists>v a b s p.
           getitem cost_book_ex ''vacuum'' = Inr v
         \<and> getitem v ''main_per_lf_shallow'' = Inr a
         \<and> getitem v ''lateral_per_lf'' = Inr b
         \<and> getitem v ''station_per_400_lots_ls'' = Inr s
         \<and> getitem v ''valve_pit_each'' = Inr p
         \<and> vacuum_capex cluster_single v =
             Inr (est_main_lf cluster_single * num a + est_laterals_lf cluster_single * num b
                  + of_int \<lceil>of_int (max 1 (num_lots cluster_single)) / (400::real)\<rceil> * num s
                  + of_int \<lceil>of_int (num_lots cluster_single) / (2::real)\<rceil> * num p)
         \<and> capex vacuum_single =
             round2 (est_main_lf cluster_single * num a + est_laterals_lf cluster_single * num b
                  + of_int \<lceil>of_int (max 1 (num_lots cluster_single)) / (400::real)\<rceil> * num s
                  + of_int \<lceil>of_int (num_lots cluster_single) / (2::real)\<rceil> * num p)
         \<and> 1 \<le> \<lceil>of_int (max 1 (num_lots cluster_single)) / (400::real)\<rceil>)"
  using estimate_vacuum_single vacuum_capex_formula [OF estimate_vacuum_single]
  by (rule conjI)

subsection \<open>The preferred system\<close>

lemma compare_ex: "compare cost_book_ex cluster_ex = Inr comparison_ex"
  by code_simp

text \<open>
  C4. Whenever \<open>compare\<close> returns, its result holds the two estimates of the cluster,
  \<open>preferred\<close> is \<open>Vacuum\<close> exactly when the vacuum \<open>npv_total\<close> is strictly lower than
  the pressure one and \<open>Pressure\<close> otherwise, so a tie yields \<open>Pressure\<close>, and
  \<open>npv_delta\<close> is the absolute difference of the two totals rounded to 2 decimals.
\<close>

theorem compare_preferred_and_delta:
  assumes "compare cb c = Inr r"
  shows "estimate_vacuum c cb = Inr (vacuum r)
       \<and> estimate_pressure c cb = Inr (pressure r)
       \<and> (preferred r = ''Vacuum'') = (npv_total (vacuum r) < npv_total (pressure r))
       \<and> (preferred r = ''Pressure'') = (\<not> npv_total (vacuum r) < npv_total (pressure r))
       \<and> (npv_total (vacuum r) = npv_total (pressure r) \<longrightarrow> preferred r = ''Pressure'')
       \<and> npv_delta r = round2 \<bar>npv_total (vacuum r) - npv_total (pressure r)\<bar>"
  using assms by (auto simp: compare_def bind_err_Inr split: if_splits)

lemma compare_tie: "compare cost_book_tie cluster_ex = Inr comparison_tie"
  by code_simp

lemma comparison_ex_lower:
  "npv_total (vacuum comparison_ex) < npv_total (pressure comparison_ex)"
  by code_simp

lemma comparison_tie_equal:
  "npv_total (vacuum comparison_tie) = npv_total (pressure comparison_tie)"
  by code_simp

text \<open>
  Both cases occur: the example cost book makes the vacuum system strictly cheaper, and
  a cost book under which the two totals are equal yields \<open>Pressure\<close>.
\<close>

theorem compare_preferred_and_delta_witness:
  "compare cost_book_ex cluster_ex = Inr comparison_ex
   \<and> npv_total (vacuum comparison_ex) < npv_total (pressure comparison_ex)
   \<and> preferred comparison_ex = ''Vacuum''
   \<and> compare cost_book_tie cluster_ex = Inr comparison_tie
   \<and> npv_total (vacuum comparison_tie) = npv_total (pressure comparison_tie)
   \<and> preferred comparison_tie = ''Pressure''
   \<and> npv_delta comparison_tie
       = round2 \<bar>npv_total (vacuum comparison_tie) - npv_total (pressure comparison_tie)\<bar>"
  using compare_preferred_and_delta [OF compare_ex] compare_preferred_and_delta [OF compare_tie]
    compare_ex compare_tie comparison_ex_lower comparison_tie_equal
  by blast

subsection \<open>The three-level fallback\<close>

lemma f_fin_finance: "f_fin (finance_of cb) k d = spec_resolve None (finance_value cb k) d"
  by (auto simp: f_fin_def finance_of_def get_default_def spec_resolve_def finance_value_def
      split: option.splits)

text \<open>
  C1, as stated, fails: a value that is present on the cluster but zero is skipped,
  because \<^verbatim>\<open>c.discount_rate or ...\<close> tests truth, not presence. With a discount rate
  of 0 on the cluster and 0.25 in \<open>cost_book.finance\<close>, the code resolves 0.25, and
  \<open>estimate_vacuum\<close> returns the very estimate it returns for the cluster that gives no
  rate at all.
\<close>

theorem three_level_resolution_counterexample:
  "resolve_dr cluster_zero_rate cost_book_ex \<noteq>
     spec_resolve (map_option YFloat (discount_rate cluster_zero_rate))
       (finance_value cost_book_ex ''discount_rate'') (YFloat (6 / 100))
   \<and> resolve_dr cluster_zero_rate cost_book_ex = YFloat (1 / 4)
   \<and> estimate_vacuum cluster_zero_rate cost_book_ex = Inr vacuum_ex"
  by code_simp

text \<open>
  C1, amended. For every cluster and cost book, the horizon, the discount rate and the
  energy rate used by \<open>estimate_vacuum\<close> and \<open>estimate_pressure\<close> are resolved by the
  three-level fallback in which a value on the cluster counts as present only if it is
  not zero: the value on the cluster if present and non-zero, otherwise the value in
  \<open>cost_book.finance\<close> if present (zero or not), otherwise 30, 0.06 and 0.14.
\<close>

theorem three_level_resolution:
  "resolve_ny c cb =
     spec_resolve (if analysis_years c = Some 0 then None else map_option YInt (analysis_years c))
       (finance_value cb ''analysis_years'') (YInt 30)
   \<and> resolve_dr c cb =
     spec_resolve (if discount_rate c = Some 0 then None else map_option YFloat (discount_rate c))
       (finance_value cb ''discount_rate'') (YFloat (6 / 100))
   \<and> resolve_ek c cb =
     spec_resolve (if energy_rate_per_kwh c = Some 0 then None
                   else map_option YFloat (energy_rate_per_kwh c))
       (finance_value cb ''energy_rate_per_kwh'') (YFloat (14 / 100))"
  by (auto simp: resolve_ny_def resolve_dr_def resolve_ek_def py_or_def f_fin_finance
      spec_resolve_def split: option.splits)

theorem three_level_resolution_witness:
  "resolve_ny cluster_zero_rate cost_book_ex = YInt 2
   \<and> resolve_dr cluster_zero_rate cost_book_ex = YFloat (1 / 4)
   \<and> resolve_ek cluster_zero_rate cost_book_ex = YFloat (14 / 100)"
  using three_level_resolution [of cluster_zero_rate cost_book_ex]
  by (simp add: spec_resolve_def finance_value_def cluster_zero_rate_def cluster_ex_def
      cost_book_ex_def)

subsection \<open>The yearly series of the pressure system\<close>

lemma upto_1_10: "[1..10::int] = [1, 2, 3, 4, 5, 6, 7, 8, 9, 10]"
  by code_simp

lemma series_5_10:
  "pressure_series a r (max 1 (py_int (YInt 5))) [1..10] = [a, a, a, a, a + r, a, a, a, a, a + r]"
  by (simp add: pressure_series_def upto_1_10)

lemma pressure_series_nth:
  assumes "1 \<le> t" "t \<le> n"
  shows "pressure_series a r k [1..n] ! nat (t - 1) = a + (if t mod k = 0 then r else 0)"
proof -
  have "nat (t - 1) < length [1..n]"
    using assms by simp
  moreover have "[1..n] ! nat (t - 1) = t"
    using assms by (simp add: nth_upto)
  ultimately show ?thesis
    by (simp add: pressure_series_def)
qed

lemma range1_Inr: "(range1 ny = Inr ys) = (\<exists>n. ny = YInt n \<and> ys = [1..n])"
  by (cases ny) (auto simp: range1_def)

lemma estimate_pressure_ten: "estimate_pressure cluster_ten cost_book_ex = Inr pressure_ten"
  by code_simp

text \<open>
  C2. Whenever \<open>estimate_pressure\<close> returns, the resolved horizon is an int \<open>n\<close> and the
  series it discounts has one entry per year \<open>1..n\<close>; the entry of year \<open>t\<close> is the
  annual operating cost, plus \<open>num_lots * pump_replace_cost_each\<close> exactly when
  \<open>t mod pump_replace_years = 0\<close>, where \<open>pump_replace_years\<close> is the cost-book value
  coerced with \<open>int\<close> and raised to 1 at least. With a pump life of 5 years and a horizon
  of 10 the lump is in years 5 and 10 and nowhere else. The field \<open>npv_om\<close> is the rounded
  present value of this series.
\<close>

theorem pressure_series_replacement:
  assumes "estimate_pressure c cb = Inr e"
  shows "\<exists>p n annual pry prc series w.
           getitem cb ''pressure'' = Inr p
         \<and> resolve_ny c cb = YInt n
         \<and> annual_om c p (num (resolve_ek c cb)) = Inr annual
         \<and> getitem p ''pump_replace_years'' = Inr pry
         \<and> getitem p ''pump_replace_cost_each'' = Inr prc
         \<and> series = pressure_series annual (of_int (num_lots c) * num prc) (max 1 (py_int pry)) [1..n]
         \<and> length series = nat n
         \<and> (\<forall>t. 1 \<le> t \<and> t \<le> n \<longrightarrow>
               series ! nat (t - 1) =
                 annual + (if t mod max 1 (py_int pry) = 0 then of_int (num_lots c) * num prc else 0))
         \<and> (py_int pry = 5 \<and> n = 10 \<longrightarrow>
               series = [annual, annual, annual, annual, annual + of_int (num_lots c) * num prc,
                         annual, annual, annual, annual, annual + of_int (num_lots c) * num prc])
         \<and> npv series (num (resolve_dr c cb)) = Inr w
         \<and> npv_om e = round2 w"
proof -
  from assms obtain p x annual pry prc ys w where p: "getitem cb ''pressure'' = Inr p"
    and a: "annual_om c p (num (resolve_ek c cb)) = Inr annual"
    and pry: "getitem p ''pump_replace_years'' = Inr pry"
    and prc: "getitem p ''pump_replace_cost_each'' = Inr prc"
    and ys: "range1 (resolve_ny c cb) = Inr ys"
    and w: "npv (pressure_series annual (of_int (num_lots c) * num prc) (max 1 (py_int pry)) ys)
              (num (resolve_dr c cb)) = Inr w"
    and e: "e = \<lparr> system = ''Pressure'', capex = round2 x, annual_om_year1 = round2 annual,
                 npv_om = round2 w, npv_total = round2 (x + w) \<rparr>"
    unfolding estimate_pressure_Inr by blast
  from ys obtain n where n: "resolve_ny c cb = YInt n" and ysn: "ys = [1..n]"
    unfolding range1_Inr by blast
  define series where
    "series = pressure_series annual (of_int (num_lots c) * num prc) (max 1 (py_int pry)) [1..n]"
  have len: "length series = nat n"
    by (simp add: series_def pressure_series_def)
  have nth: "\<forall>t. 1 \<le> t \<and> t \<le> n \<longrightarrow>
               series ! nat (t - 1) =
                 annual + (if t mod max 1 (py_int pry) = 0 then of_int (num_lots c) * num prc else 0)"
    unfolding series_def using pressure_series_nth by blast
  have inst: "py_int pry = 5 \<and> n = 10 \<longrightarrow>
               series = [annual, annual, annual, annual, annual + of_int (num_lots c) * num prc,
                         annual, annual, annual, annual, annual + of_int (num_lots c) * num prc]"
  proof
    assume h: "py_int pry = 5 \<and> n = 10"
    then have "max 1 (py_int pry) = max 1 (py_int (YInt 5))" by simp
    with h show "series = [annual, annual, annual, annual, annual + of_int (num_lots c) * num prc,
                         annual, annual, annual, annual, annual + of_int (num_lots c) * num prc]"
      unfolding series_def using series_5_10 [of annual "of_int (num_lots c) * num prc"] by simp
  qed
  have e': "npv_om e = round2 w" using e by simp
  have w': "npv series (num (resolve_dr c cb)) = Inr w"
    using w unfolding ysn series_def .
  have s: "series = pressure_series annual (of_int (num_lots c) * num prc) (max 1 (py_int pry)) [1..n]"
    by (rule series_def)
  show ?thesis
    apply (rule exI [of _ p], rule exI [of _ n], rule exI [of _ annual], rule exI [of _ pry])
    apply (rule exI [of _ prc], rule exI [of _ series], rule exI [of _ w])
    using p n a pry prc s len nth inst w' e' by blast
qed

theorem pressure_series_replacement_witness:
  "estimate_pressure cluster_ten cost_book_ex = Inr pressure_ten
   \<and> (\<exists>p n annual pry prc series w.
           getitem cost_book_ex ''pressure'' = Inr p
         \<and> resolve_ny cluster_ten cost_book_ex = YInt n
         \<and> annual_om cluster_ten p (num (resolve_ek cluster_ten cost_book_ex)) = Inr annual
         \<and> getitem p ''pump_replace_years'' = Inr pry
         \<and> getitem p ''pump_replace_cost_each'' = Inr prc
         \<and> series = pressure_series annual (of_int (num_lots cluster_ten) * num prc) (max 1 (py_int pry)) [1..n]
         \<and> length series = nat n
         \<and> (\<forall>t. 1 \<le> t \<and> t \<le> n \<longrightarrow>
               series ! nat (t - 1) =
                 annual + (if t mod max 1 (py_int pry) = 0 then of_int (num_lots cluster_ten) * num prc else 0))
         \<and> (py_int pry = 5 \<and> n = 10 \<longrightarrow>
               series = [annual, annual, annual, annual, annual + of_int (num_lots cluster_ten) * num prc,
                         annual, annual, annual, annual, annual + of_int (num_lots cluster_ten) * num prc])
         \<and> npv series (num (resolve_dr cluster_ten cost_book_ex)) = Inr w
         \<and> npv_om pressure_ten = round2 w)"
  using estimate_pressure_ten pressure_series_replacement [OF estimate_pressure_ten]
  by (rule conjI)

subsection \<open>More lots never cost less capital\<close>

lemma nonneg_section_getitem:
  assumes "nonneg_section sec" "getitem sec k = Inr v"
  shows "0 \<le> num v"
proof -
  from assms(2) have "map_of sec k = Some v"
    by (auto simp: getitem_def split: option.splits)
  then have "(k, v) \<in> set sec"
    by (rule map_of_SomeD)
  with assms(1) show ?thesis
    by (auto simp: nonneg_section_def list_all_iff)
qed

lemma nonneg_unit_costs_vacuum:
  "nonneg_unit_costs cb \<Longrightarrow> getitem cb ''vacuum'' = Inr v \<Longrightarrow> nonneg_section v"
  by (auto simp: nonneg_unit_costs_def getitem_def split: option.splits)

lemma nonneg_unit_costs_pressure:
  "nonneg_unit_costs cb \<Longrightarrow> getitem cb ''pressure'' = Inr p \<Longrightarrow> nonneg_section p"
  by (auto simp: nonneg_unit_costs_def getitem_def split: option.splits)

lemma vacuum_capex_mono:
  assumes sec: "nonneg_section v" and le: "num_lots c \<le> n"
    and x1: "vacuum_capex c v = Inr x1" and x2: "vacuum_capex (c\<lparr>num_lots := n\<rparr>) v = Inr x2"
  shows "x1 \<le> x2"
proof -
  from x1 obtain a b s p where g: "getitem v ''main_per_lf_shallow'' = Inr a"
    "getitem v ''lateral_per_lf'' = Inr b" "getitem v ''station_per_400_lots_ls'' = Inr s"
    "getitem v ''valve_pit_each'' = Inr p"
    and e1: "x1 = est_main_lf c * num a + est_laterals_lf c * num b
              + of_int \<lceil>of_int (max 1 (num_lots c)) / (400::real)\<rceil> * num s
              + of_int \<lceil>of_int (num_lots c) / (2::real)\<rceil> * num p"
    unfolding vacuum_capex_Inr by blast
  from x2 g have e2: "x2 = est_main_lf c * num a + est_laterals_lf c * num b
              + of_int \<lceil>of_int (max 1 n) / (400::real)\<rceil> * num s
              + of_int \<lceil>of_int n / (2::real)\<rceil> * num p"
    by (simp add: vacuum_capex_Inr)
  have s: "0 \<le> num s" and p: "0 \<le> num p"
    using sec g by (auto intro: nonneg_section_getitem)
  have "\<lceil>of_int (max 1 (num_lots c)) / (400::real)\<rceil> \<le> \<lceil>of_int (max 1 n) / (400::real)\<rceil>"
    using le by (intro ceiling_mono divide_right_mono) simp_all
  then have t1: "of_int \<lceil>of_int (max 1 (num_lots c)) / (400::real)\<rceil> * num s
      \<le> of_int \<lceil>of_int (max 1 n) / (400::real)\<rceil> * num s"
    using s by (intro mult_right_mono) simp_all
  have "\<lceil>of_int (num_lots c) / (2::real)\<rceil> \<le> \<lceil>of_int n / (2::real)\<rceil>"
    using le by (intro ceiling_mono divide_right_mono) simp_all
  then have t2: "of_int \<lceil>of_int (num_lots c) / (2::real)\<rceil> * num p
      \<le> of_int \<lceil>of_int n / (2::real)\<rceil> * num p"
    using p by (intro mult_right_mono) simp_all
  from t1 t2 show ?thesis
    unfolding e1 e2 by linarith
qed

lemma pressure_capex_mono:
  assumes sec: "nonneg_section p" and le: "num_lots c \<le> n"
    and x1: "pressure_capex c p = Inr x1" and x2: "pressure_capex (c\<lparr>num_lots := n\<rparr>) p = Inr x2"
  shows "x1 \<le> x2"
proof -
  from x1 obtain a b g bo where g: "getitem p ''main_per_lf_shallow'' = Inr a"
    "getitem p ''lateral_per_lf'' = Inr b" "getitem p ''grinder_pump_package_each'' = Inr g"
    "(if 8000 < est_main_lf c then getitem p ''booster_ls'' else Inr (YInt 0)) = Inr bo"
    and e1: "x1 = est_main_lf c * num a + est_laterals_lf c * num b
              + of_int (num_lots c) * num g + num bo"
    unfolding pressure_capex_Inr by blast
  from x2 g have e2: "x2 = est_main_lf c * num a + est_laterals_lf c * num b
              + of_int n * num g + num bo"
    by (simp add: pressure_capex_Inr)
  have "0 \<le> num g"
    using sec g by (auto intro: nonneg_section_getitem)
  then have "of_int (num_lots c) * num g \<le> of_int n * num g"
    using le by (intro mult_right_mono) simp_all
  then show ?thesis
    unfolding e1 e2 by linarith
qed

lemma estimate_vacuum_500:
  "estimate_vacuum (cluster_ex\<lparr>num_lots := 500\<rparr>) cost_book_ex = Inr vacuum_500"
  by code_simp

lemma estimate_pressure_500:
  "estimate_pressure (cluster_ex\<lparr>num_lots := 500\<rparr>) cost_book_ex = Inr pressure_500"
  by code_simp

lemma nonneg_unit_costs_ex: "nonneg_unit_costs cost_book_ex"
  by code_simp

text \<open>
  C5. Let no unit cost of the cost book be negative, and let two clusters agree on
  every field but \<open>num_lots\<close>. If both have an estimate, of the vacuum system or of the
  pressure system, then the cluster with more lots has the larger or equal \<open>capex\<close>.
\<close>

theorem capex_monotone_in_num_lots:
  assumes "nonneg_unit_costs cb" and "num_lots c \<le> n"
  shows "(estimate_vacuum c cb = Inr e1 \<and> estimate_vacuum (c\<lparr>num_lots := n\<rparr>) cb = Inr e2
            \<longrightarrow> capex e1 \<le> capex e2)
       \<and> (estimate_pressure c cb = Inr p1 \<and> estimate_pressure (c\<lparr>num_lots := n\<rparr>) cb = Inr p2
            \<longrightarrow> capex p1 \<le> capex p2)"
proof (intro conjI impI)
  assume h: "estimate_vacuum c cb = Inr e1 \<and> estimate_vacuum (c\<lparr>num_lots := n\<rparr>) cb = Inr e2"
  then obtain v x1 where v: "getitem cb ''vacuum'' = Inr v" and x1: "vacuum_capex c v = Inr x1"
    and c1: "capex e1 = round2 x1"
    by (auto simp: estimate_vacuum_Inr)
  from h v obtain x2 where x2: "vacuum_capex (c\<lparr>num_lots := n\<rparr>) v = Inr x2"
    and c2: "capex e2 = round2 x2"
    by (auto simp: estimate_vacuum_Inr)
  have "x1 \<le> x2"
    using nonneg_unit_costs_vacuum [OF assms(1) v] assms(2) x1 x2 by (rule vacuum_capex_mono)
  then show "capex e1 \<le> capex e2"
    unfolding c1 c2 by (rule round2_mono)
next
  assume h: "estimate_pressure c cb = Inr p1 \<and> estimate_pressure (c\<lparr>num_lots := n\<rparr>) cb = Inr p2"
  then obtain p x1 where p: "getitem cb ''pressure'' = Inr p" and x1: "pressure_capex c p = Inr x1"
    and c1: "capex p1 = round2 x1"
    by (auto simp: estimate_pressure_Inr)
  from h p obtain x2 where x2: "pressure_capex (c\<lparr>num_lots := n\<rparr>) p = Inr x2"
    and c2: "capex p2 = round2 x2"
    by (auto simp: estimate_pressure_Inr)
  have "x1 \<le> x2"
    using nonneg_unit_costs_pressure [OF assms(1) p] assms(2) x1 x2 by (rule pressure_capex_mono)
  then show "capex p1 \<le> capex p2"
    unfolding c1 c2 by (rule round2_mono)
qed

theorem capex_monotone_in_num_lots_witness:
  "nonneg_unit_costs cost_book_ex \<and> num_lots cluster_ex \<le> 500
   \<and> estimate_vacuum cluster_ex cost_book_ex = Inr vacuum_ex
   \<and> estimate_vacuum (cluster_ex\<lparr>num_lots := 500\<rparr>) cost_book_ex = Inr vacuum_500
   \<and> capex vacuum_ex \<le> capex vacuum_500
   \<and> estimate_pressure cluster_ex cost_book_ex = Inr pressure_ex
   \<and> estimate_pressure (cluster_ex\<lparr>num_lots := 500\<rparr>) cost_book_ex = Inr pressure_500
   \<and> capex pressure_ex \<le> capex pressure_500"
proof -
  have le: "num_lots cluster_ex \<le> 500"
    by (simp add: cluster_ex_def)
  show ?thesis
    using capex_monotone_in_num_lots [OF nonneg_unit_costs_ex le,
        of vacuum_ex vacuum_500 pressure_ex pressure_500]
      nonneg_unit_costs_ex le estimate_vacuum_ex estimate_vacuum_500
      estimate_pressure_ex estimate_pressure_500
    by blast
qed

subsection \<open>A horizon of a single year\<close>

lemma npv_single: "npv [y] r = (if 1 + r = 0 then Inl ZeroDivisionError else Inr (y / (1 + r)))"
  by (simp add: npv_def)

lemma one_mod_max: "((1::int) mod max 1 k = 0) = (k \<le> 1)"
  by (cases "k \<le> 1") (simp_all add: max_def)

lemma resolve_ny_one_year: "resolve_ny cluster_one_year cost_book_yearly = YInt 1"
  by code_simp

lemma estimate_vacuum_one_year:
  "estimate_vacuum cluster_one_year cost_book_yearly = Inr vacuum_one_year"
  by code_simp

lemma estimate_pressure_one_year:
  "estimate_pressure cluster_one_year cost_book_yearly = Inr pressure_one_year"
  by code_simp

text \<open>
  C6, as stated, fails. With a pump replaced every year the single year of the pressure
  series carries the replacement lump as well, so the returned \<open>npv_om\<close> (252410.38)
  is far from \<open>annual_om_year1 / (1 + discount_rate)\<close> (16561.32...). For the vacuum
  system the returned \<open>npv_om\<close> is a rounded value (13731.13), not the quotient
  \<open>14555 / 1.06\<close> itself.
\<close>

theorem single_year_npv_om_counterexample:
  "resolve_ny cluster_one_year cost_book_yearly = YInt 1
   \<and> resolve_dr cluster_one_year cost_book_yearly = YFloat (6 / 100)
   \<and> estimate_pressure cluster_one_year cost_book_yearly = Inr pressure_one_year
   \<and> npv_om pressure_one_year \<noteq> annual_om_year1 pressure_one_year / (1 + 6 / 100)
   \<and> 1 / 100 < npv_om pressure_one_year - annual_om_year1 pressure_one_year / (1 + 6 / 100)
   \<and> estimate_vacuum cluster_one_year cost_book_yearly = Inr vacuum_one_year
   \<and> npv_om vacuum_one_year \<noteq> annual_om_year1 vacuum_one_year / (1 + 6 / 100)"
  by code_simp

text \<open>
  C6, amended. Let the resolved horizon be a single year. Whenever \<open>estimate_vacuum\<close>
  returns, \<open>1 + discount_rate\<close> is not zero and the returned \<open>npv_om\<close> is the year-1
  operating cost before rounding, divided by \<open>1 + discount_rate\<close> and then rounded to
  2 decimals. Whenever \<open>estimate_pressure\<close> returns, the same holds with the annual
  operating cost before rounding, to which \<open>num_lots * pump_replace_cost_each\<close> is
  added first when \<open>int(pump_replace_years)\<close> is 1 or less. In both cases the returned
  \<open>annual_om_year1\<close> is the rounded operating cost without any lump.
\<close>

theorem single_year_npv_om:
  assumes "resolve_ny c cb = YInt 1"
  shows "(estimate_vacuum c cb = Inr e \<longrightarrow>
            (\<exists>v y1. getitem cb ''vacuum'' = Inr v
               \<and> annual_om c v (num (resolve_ek c cb)) = Inr y1
               \<and> annual_om_year1 e = round2 y1
               \<and> 1 + num (resolve_dr c cb) \<noteq> 0
               \<and> npv_om e = round2 (y1 / (1 + num (resolve_dr c cb)))))
       \<and> (estimate_pressure c cb = Inr e' \<longrightarrow>
            (\<exists>p annual pry prc. getitem cb ''pressure'' = Inr p
               \<and> annual_om c p (num (resolve_ek c cb)) = Inr annual
               \<and> getitem p ''pump_replace_years'' = Inr pry
               \<and> getitem p ''pump_replace_cost_each'' = Inr prc
               \<and> annual_om_year1 e' = round2 annual
               \<and> 1 + num (resolve_dr c cb) \<noteq> 0
               \<and> npv_om e' =
                   round2 ((annual + (if py_int pry \<le> 1 then of_int (num_lots c) * num prc else 0))
                           / (1 + num (resolve_dr c cb)))))"
proof (intro conjI impI)
  assume "estimate_vacuum c cb = Inr e"
  then obtain v x y1 series w where v: "getitem cb ''vacuum'' = Inr v"
    and y1: "annual_om c v (num (resolve_ek c cb)) = Inr y1"
    and s: "repeat_list y1 (resolve_ny c cb) = Inr series"
    and w: "npv series (num (resolve_dr c cb)) = Inr w"
    and e: "e = \<lparr> system = ''Vacuum'', capex = round2 x, annual_om_year1 = round2 y1,
                 npv_om = round2 w, npv_total = round2 (x + w) \<rparr>"
    unfolding estimate_vacuum_Inr by blast
  from s assms have "series = [y1]"
    by (simp add: repeat_list_def)
  with w have "1 + num (resolve_dr c cb) \<noteq> 0 \<and> w = y1 / (1 + num (resolve_dr c cb))"
    by (auto simp: npv_single split: if_splits)
  with v y1 e show "\<exists>v y1. getitem cb ''vacuum'' = Inr v
               \<and> annual_om c v (num (resolve_ek c cb)) = Inr y1
               \<and> annual_om_year1 e = round2 y1
               \<and> 1 + num (resolve_dr c cb) \<noteq> 0
               \<and> npv_om e = round2 (y1 / (1 + num (resolve_dr c cb)))"
    by auto
next
  assume "estimate_pressure c cb = Inr e'"
  then obtain p x annual pry prc ys w where p: "getitem cb ''pressure'' = Inr p"
    and a: "annual_om c p (num (resolve_ek c cb)) = Inr annual"
    and pry: "getitem p ''pump_replace_years'' = Inr pry"
    and prc: "getitem p ''pump_replace_cost_each'' = Inr prc"
    and ys: "range1 (resolve_ny c cb) = Inr ys"
    and w: "npv (pressure_series annual (of_int (num_lots c) * num prc) (max 1 (py_int pry)) ys)
              (num (resolve_dr c cb)) = Inr w"
    and e: "e' = \<lparr> system = ''Pressure'', capex = round2 x, annual_om_year1 = round2 annual,
                 npv_om = round2 w, npv_total = round2 (x + w) \<rparr>"
    unfolding estimate_pressure_Inr by blast
  from ys assms have "ys = [1]"
    by (simp add: range1_def)
  then have "pressure_series annual (of_int (num_lots c) * num prc) (max 1 (py_int pry)) ys
      = [annual + (if py_int pry \<le> 1 then of_int (num_lots c) * num prc else 0)]"
    by (simp add: pressure_series_def one_mod_max)
  with w have "1 + num (resolve_dr c cb) \<noteq> 0
      \<and> w = (annual + (if py_int pry \<le> 1 then of_int (num_lots c) * num prc else 0))
              / (1 + num (resolve_dr c cb))"
    by (auto simp: npv_single split: if_splits)
  with p a pry prc e show "\<exists>p annual pry prc. getitem cb ''pressure'' = Inr p
               \<and> annual_om c p (num (resolve_ek c cb)) = Inr annual
               \<and> getitem p ''pump_replace_years'' = Inr pry
               \<and> getitem p ''pump_replace_cost_each'' = Inr prc
               \<and> annual_om_year1 e' = round2 annual
               \<and> 1 + num (resolve_dr c cb) \<noteq> 0
               \<and> npv_om e' =
                   round2 ((annual + (if py_int pry \<le> 1 then of_int (num_lots c) * num prc else 0))
                           / (1 + num (resolve_dr c cb)))"
    by auto
qed

theorem single_year_npv_om_witness:
  "resolve_ny cluster_one_year cost_book_yearly = YInt 1
   \<and> estimate_vacuum cluster_one_year cost_book_yearly = Inr vacuum_one_year
   \<and> (\<exists>v y1. getitem cost_book_yearly ''vacuum'' = Inr v
               \<and> annual_om cluster_one_year v (num (resolve_ek cluster_one_year cost_book_yearly)) = Inr y1
               \<and> annual_om_year1 vacuum_one_year = round2 y1
               \<and> 1 + num (resolve_dr cluster_one_year cost_book_yearly) \<noteq> 0
               \<and> npv_om vacuum_one_year = round2 (y1 / (1 + num (resolve_dr cluster_one_year cost_book_yearly))))
   \<and> estimate_pressure cluster_one_year cost_book_yearly = Inr pressure_one_year
   \<and> (\<exists>p annual pry prc. getitem cost_book_yearly ''pressure'' = Inr p
               \<and> annual_om cluster_one_year p (num (resolve_ek cluster_one_year cost_book_yearly)) = Inr annual
               \<and> getitem p ''pump_replace_years'' = Inr pry
               \<and> getitem p ''pump_replace_cost_each'' = Inr prc
               \<and> annual_om_year1 pressure_one_year = round2 annual
               \<and> 1 + num (resolve_dr cluster_one_year cost_book_yearly) \<noteq> 0
               \<and> npv_om pressure_one_year =
                   round2 ((annual + (if py_int pry \<le> 1 then of_int (num_lots cluster_one_year) * num prc else 0))
                           / (1 + num (resolve_dr cluster_one_year cost_book_yearly))))"
  using single_year_npv_om [OF resolve_ny_one_year, of vacuum_one_year pressure_one_year]
    resolve_ny_one_year estimate_vacuum_one_year estimate_pressure_one_year
  by blast

subsection \<open>The output format\<close>

lemma lower_json: "lower ''json'' = ''json''"
  by code_simp

lemma lower_Nil_iff: "(lower s = []) = (s = [])"
  by (simp add: lower_def)

lemma lower_str_or:
  "lower (str_or f ''json'') = (if fmt_key f = [] then ''json'' else fmt_key f)"
  by (cases f) (auto simp: str_or_def fmt_key_def lower_json lower_Nil_iff)

text \<open>
  C10. The handler treats \<open>fmt\<close> without regard to case and treats a missing or null
  \<open>fmt\<close> as \<open>json\<close>: two requests for the same cluster whose \<open>fmt\<close> strings agree after
  \<open>None\<close> is mapped to \<open>json\<close> and the string is lowercased get the same rendering (or
  the same exception of \<open>compare\<close>).
\<close>

theorem rendering_depends_on_lowercased_fmt:
  assumes "cluster r1 = cluster r2" and "fmt_key (fmt r1) = fmt_key (fmt r2)"
  shows "map_sum id rendering_of (vendors_compare R cb r1)
       = map_sum id rendering_of (vendors_compare R cb r2)"
proof (cases "compare cb (cluster r2)")
  case (Inl e)
  with assms show ?thesis
    by (simp add: vendors_compare_def)
next
  case (Inr res)
  with assms show ?thesis
    by (simp add: vendors_compare_def lower_str_or Let_def)
qed

theorem rendering_depends_on_lowercased_fmt_witness:
  "cluster req_no_fmt = cluster req_upper_json
   \<and> fmt_key (fmt req_no_fmt) = fmt_key (fmt req_upper_json)
   \<and> map_sum id rendering_of (vendors_compare renderers_ex cost_book_ex req_no_fmt)
       = map_sum id rendering_of (vendors_compare renderers_ex cost_book_ex req_upper_json)"
proof -
  have h1: "cluster req_no_fmt = cluster req_upper_json"
    by (simp add: req_no_fmt_def req_upper_json_def)
  have h2: "fmt_key (fmt req_no_fmt) = fmt_key (fmt req_upper_json)"
    by code_simp
  show ?thesis
    using h1 h2 rendering_depends_on_lowercased_fmt [OF h1 h2, of renderers_ex cost_book_ex]
    by blast
qed

text \<open>
  C7, as stated, fails twice. An empty \<open>fmt\<close> string is none of the four formats, yet
  \<^verbatim>\<open>req.fmt or "json"\<close> turns it into \<open>json\<close> and the comparison is returned. And the
  comparison is computed before \<open>fmt\<close> is looked at, so a request the cost model
  cannot serve raises whatever its \<open>fmt\<close>: a discount rate of -1 gives a division by
  zero.
\<close>

theorem unknown_format_error_counterexample:
  "fmt req_empty_fmt = Some []
   \<and> lower [] \<notin> {''json'', ''markdown'', ''html'', ''csv''}
   \<and> vendors_compare renderers_ex cost_book_ex req_empty_fmt = Inr (Result comparison_ex)
   \<and> fmt req_minus_one = Some ''xml''
   \<and> lower ''xml'' \<notin> {''json'', ''markdown'', ''html'', ''csv''}
   \<and> vendors_compare renderers_ex cost_book_ex req_minus_one = Inl ZeroDivisionError"
  by code_simp

text \<open>
  C7, amended. For every request whose comparison is computed without an exception
  and whose \<open>fmt\<close> is a non-empty string that, lowercased, is none of \<open>json\<close>,
  \<open>markdown\<close>, \<open>html\<close>, \<open>csv\<close>, the handler renders nothing: it returns the error dict
  whose message quotes \<open>fmt\<close> as it was sent and lists \<open>json|markdown|html|csv\<close>, and
  the status is 200.
\<close>

theorem unknown_format_error:
  assumes "compare cb (cluster req) = Inr res" and "fmt req = Some s" and "s \<noteq> []"
    and "lower s \<notin> {''json'', ''markdown'', ''html'', ''csv''}"
  shows "vendors_compare R cb req =
           Inr (ErrorDict (''Unknown format '' @ [CHR 0x27] @ s @ [CHR 0x27]
                           @ ''. Use json|markdown|html|csv''))
       \<and> status_code (ErrorDict (''Unknown format '' @ [CHR 0x27] @ s @ [CHR 0x27]
                           @ ''. Use json|markdown|html|csv'')) = 200"
  using assms by (simp add: vendors_compare_def str_or_def fstr_def Let_def)

theorem unknown_format_error_witness:
  "compare cost_book_ex (cluster req_xml) = Inr comparison_ex
   \<and> fmt req_xml = Some ''XML''
   \<and> ''XML'' \<noteq> []
   \<and> lower ''XML'' \<notin> {''json'', ''markdown'', ''html'', ''csv''}
   \<and> vendors_compare renderers_ex cost_book_ex req_xml =
           Inr (ErrorDict (''Unknown format '' @ [CHR 0x27] @ ''XML'' @ [CHR 0x27]
                           @ ''. Use json|markdown|html|csv''))
   \<and> status_code (ErrorDict (''Unknown format '' @ [CHR 0x27] @ ''XML'' @ [CHR 0x27]
                           @ ''. Use json|markdown|html|csv'')) = 200"
proof -
  have h1: "compare cost_book_ex (cluster req_xml) = Inr comparison_ex"
    by (simp add: req_xml_def compare_ex)
  have h2: "fmt req_xml = Some ''XML''"
    by (simp add: req_xml_def)
  have h3: "''XML'' \<noteq> []"
    by simp
  have h4: "lower ''XML'' \<notin> {''json'', ''markdown'', ''html'', ''csv''}"
    by code_simp
  show ?thesis
    using h1 h2 h3 h4 unknown_format_error [OF h1 h2 h3 h4, of renderers_ex]
    by blast
qed

subsection \<open>Defaults of the request model\<close>

lemma validate_req_Inr:
  "(validate_req rb = Inr req) =
     (\<exists>c. validate_cluster (body_cluster rb) = Inr c
        \<and> req = \<lparr> cluster = c, fmt = field_value (Some ''json'') (body_fmt rb),
                   filename = field_value None (body_filename rb) \<rparr>)"
  by (auto simp: validate_req_def bind_err_Inr)

lemma validate_cluster_fields:
  assumes "validate_cluster b = Inr c"
  shows "num_lots c = body_num_lots b" "est_main_lf c = body_est_main_lf b"
    "est_laterals_lf c = body_est_laterals_lf b"
    "analysis_years c = field_value (Some 30) (body_analysis_years b)"
    "discount_rate c = field_value (Some (6 / 100)) (body_discount_rate b)"
    "energy_rate_per_kwh c = field_value (Some (14 / 100)) (body_energy_rate_per_kwh b)"
  using assms by (auto simp: validate_cluster_def split: if_splits)

lemma estimate_vacuum_cong:
  assumes "map_of cb ''vacuum'' = map_of cb2 ''vacuum''"
    and "resolve_ny c cb = resolve_ny c cb2" and "resolve_dr c cb = resolve_dr c cb2"
    and "resolve_ek c cb = resolve_ek c cb2"
  shows "estimate_vacuum c cb = estimate_vacuum c cb2"
  proof -
  have "getitem cb ''vacuum'' = getitem cb2 ''vacuum''"
    using assms(1) by (simp add: getitem_def)
  with assms(2-4) show ?thesis
    by (simp add: estimate_vacuum_def)
qed

lemma estimate_pressure_cong:
  assumes "map_of cb ''pressure'' = map_of cb2 ''pressure''"
    and "resolve_ny c cb = resolve_ny c cb2" and "resolve_dr c cb = resolve_dr c cb2"
    and "resolve_ek c cb = resolve_ek c cb2"
  shows "estimate_pressure c cb = estimate_pressure c cb2"
  proof -
  have "getitem cb ''pressure'' = getitem cb2 ''pressure''"
    using assms(1) by (simp add: getitem_def)
  with assms(2-4) show ?thesis
    by (simp add: estimate_pressure_def)
qed

lemma resolve_given:
  "analysis_years c = Some 30 \<Longrightarrow> resolve_ny c cb = YInt 30"
  "discount_rate c = Some (6 / 100) \<Longrightarrow> resolve_dr c cb = YFloat (6 / 100)"
  "energy_rate_per_kwh c = Some (14 / 100) \<Longrightarrow> resolve_ek c cb = YFloat (14 / 100)"
  by (simp_all add: resolve_ny_def resolve_dr_def resolve_ek_def py_or_def)

text \<open>
  C9, as stated, fails. The request model fills a field that is left out, but it accepts
  \<open>null\<close> and hands it on as \<open>None\<close>. A body that leaves \<open>energy_rate_per_kwh\<close> out
  and sends \<open>discount_rate: null\<close> reaches the cost model with an absent discount rate,
  and its answer changes with \<open>cost_book.finance\<close>: two cost books with the same
  \<open>vacuum\<close> and \<open>pressure\<close> sections give different replies.
\<close>

theorem omitted_fields_get_defaults_counterexample:
  "validate_req body_null_rate = Inr req_null_rate
   \<and> body_energy_rate_per_kwh (body_cluster body_null_rate) = Omitted
   \<and> discount_rate (cluster req_null_rate) = None
   \<and> map_of cost_book_ex ''vacuum'' = map_of cost_book_no_finance ''vacuum''
   \<and> map_of cost_book_ex ''pressure'' = map_of cost_book_no_finance ''pressure''
   \<and> post_vendors_compare renderers_ex cost_book_ex body_null_rate
       \<noteq> post_vendors_compare renderers_ex cost_book_no_finance body_null_rate"
  by code_simp

text \<open>
  C9, amended. For every request that passes validation, each of \<open>analysis_years\<close>,
  \<open>discount_rate\<close> and \<open>energy_rate_per_kwh\<close> that the cluster body leaves out is
  filled with 30, 0.06 and 0.14 before the cost model runs, and the cost model resolves
  that field to the same default whatever \<open>cost_book.finance\<close> holds. A request that
  leaves all three out gets the same reply from any two cost books with the same
  \<open>vacuum\<close> and \<open>pressure\<close> sections.
\<close>

theorem omitted_fields_get_defaults:
  assumes "validate_req rb = Inr req"
  shows "(body_analysis_years (body_cluster rb) = Omitted \<longrightarrow>
            analysis_years (cluster req) = Some 30 \<and> resolve_ny (cluster req) cb = YInt 30)
       \<and> (body_discount_rate (body_cluster rb) = Omitted \<longrightarrow>
            discount_rate (cluster req) = Some (6 / 100)
            \<and> resolve_dr (cluster req) cb = YFloat (6 / 100))
       \<and> (body_energy_rate_per_kwh (body_cluster rb) = Omitted \<longrightarrow>
            energy_rate_per_kwh (cluster req) = Some (14 / 100)
            \<and> resolve_ek (cluster req) cb = YFloat (14 / 100))
       \<and> (body_analysis_years (body_cluster rb) = Omitted
            \<and> body_discount_rate (body_cluster rb) = Omitted
            \<and> body_energy_rate_per_kwh (body_cluster rb) = Omitted
            \<and> map_of cb ''vacuum'' = map_of cb2 ''vacuum''
            \<and> map_of cb ''pressure'' = map_of cb2 ''pressure'' \<longrightarrow>
            post_vendors_compare R cb rb = post_vendors_compare R cb2 rb)"
proof -
  from assms obtain c where c: "validate_cluster (body_cluster rb) = Inr c"
    and req: "cluster req = c"
    by (auto simp: validate_req_Inr)
  note f = validate_cluster_fields [OF c]
  have ny: "body_analysis_years (body_cluster rb) = Omitted \<Longrightarrow> analysis_years c = Some 30"
    using f(4) by (simp add: field_value_def)
  have dr: "body_discount_rate (body_cluster rb) = Omitted \<Longrightarrow> discount_rate c = Some (6 / 100)"
    using f(5) by (simp add: field_value_def)
  have ek: "body_energy_rate_per_kwh (body_cluster rb) = Omitted
      \<Longrightarrow> energy_rate_per_kwh c = Some (14 / 100)"
    using f(6) by (simp add: field_value_def)
  have post: "post_vendors_compare R cb rb = post_vendors_compare R cb2 rb"
    if h: "body_analysis_years (body_cluster rb) = Omitted
            \<and> body_discount_rate (body_cluster rb) = Omitted
            \<and> body_energy_rate_per_kwh (body_cluster rb) = Omitted
            \<and> map_of cb ''vacuum'' = map_of cb2 ''vacuum''
            \<and> map_of cb ''pressure'' = map_of cb2 ''pressure''"
  proof -
    have r: "resolve_ny c cb = resolve_ny c cb2" "resolve_dr c cb = resolve_dr c cb2"
      "resolve_ek c cb = resolve_ek c cb2"
      using h ny dr ek by (simp_all add: resolve_given)
    have "estimate_vacuum c cb = estimate_vacuum c cb2"
      using h r by (intro estimate_vacuum_cong) simp_all
    moreover have "estimate_pressure c cb = estimate_pressure c cb2"
      using h r by (intro estimate_pressure_cong) simp_all
    ultimately have "compare cb c = compare cb2 c"
      by (simp add: compare_def)
    then have "vendors_compare R cb req = vendors_compare R cb2 req"
      using req by (simp add: vendors_compare_def)
    then show ?thesis
      using assms by (simp add: post_vendors_compare_def)
  qed
  from ny dr ek post show ?thesis
    unfolding req by (auto simp: resolve_given)
qed

lemma validate_req_omit_all: "validate_req body_omit_all = Inr req_defaults"
  by code_simp

lemma sections_agree:
  "map_of cost_book_ex ''vacuum'' = map_of cost_book_no_finance ''vacuum''"
  "map_of cost_book_ex ''pressure'' = map_of cost_book_no_finance ''pressure''"
  by code_simp+

theorem omitted_fields_get_defaults_witness:
  "validate_req body_omit_all = Inr req_defaults
   \<and> body_analysis_years (body_cluster body_omit_all) = Omitted
   \<and> body_discount_rate (body_cluster body_omit_all) = Omitted
   \<and> body_energy_rate_per_kwh (body_cluster body_omit_all) = Omitted
   \<and> map_of cost_book_ex ''vacuum'' = map_of cost_book_no_finance ''vacuum''
   \<and> map_of cost_book_ex ''pressure'' = map_of cost_book_no_finance ''pressure''
   \<and> resolve_ny (cluster req_defaults) cost_book_ex = YInt 30
   \<and> resolve_dr (cluster req_defaults) cost_book_ex = YFloat (6 / 100)
   \<and> resolve_ek (cluster req_defaults) cost_book_ex = YFloat (14 / 100)
   \<and> post_vendors_compare renderers_ex cost_book_ex body_omit_all
       = post_vendors_compare renderers_ex cost_book_no_finance body_omit_all"
proof -
  have o: "body_analysis_years (body_cluster body_omit_all) = Omitted"
    "body_discount_rate (body_cluster body_omit_all) = Omitted"
    "body_energy_rate_per_kwh (body_cluster body_omit_all) = Omitted"
    by (simp_all add: body_omit_all_def)
  show ?thesis
    using omitted_fields_get_defaults [OF validate_req_omit_all,
        where cb = cost_book_ex and ?cb2.0 = cost_book_no_finance and R = renderers_ex]
      validate_req_omit_all o sections_agree
    by blast
qed

end
